theory Spec2Isabelle
  imports Complex_Main "HOL-Library.AList"
begin

section \<open>JavaScript strings and numbers\<close>

text \<open>
  Strings are \<^typ>\<open>string\<close> (byte lists). \<open>includes_str s p\<close> is \<^verbatim>\<open>s.includes(p)\<close>,
  \<open>startsWith s p\<close> is \<^verbatim>\<open>s.startsWith(p)\<close>, \<open>endsWith s p\<close> is \<^verbatim>\<open>s.endsWith(p)\<close>.
\<close>

definition startsWith :: "string \<Rightarrow> string \<Rightarrow> bool" where
  "startsWith s p = (take (length p) s = p)"

definition endsWith :: "string \<Rightarrow> string \<Rightarrow> bool" where
  "endsWith s p = (length p \<le> length s \<and> drop (length s - length p) s = p)"

fun includes_str :: "string \<Rightarrow> string \<Rightarrow> bool" where
  "includes_str [] p = (p = [])"
| "includes_str (c # cs) p = (startsWith (c # cs) p \<or> includes_str cs p)"

text \<open>
  \<open>find_first s p\<close> splits \<open>s\<close> around the first occurrence of \<open>p\<close>;
  \<open>expand_repl\<close> expands the \<^verbatim>\<open>$\<close> patterns of a replacement string as
  \<^verbatim>\<open>String.prototype.replace\<close> does for a string pattern (no capture groups:
  \<^verbatim>\<open>$$\<close>, \<^verbatim>\<open>$&\<close>, the text before and the text after the match);
  \<open>js_replace s p r\<close> is \<^verbatim>\<open>s.replace(p, r)\<close>: only the first occurrence is replaced.
\<close>

fun find_first :: "string \<Rightarrow> string \<Rightarrow> (string \<times> string) option" where
  "find_first [] p = (if p = [] then Some ([], []) else None)"
| "find_first (c # cs) p =
     (if startsWith (c # cs) p then Some ([], drop (length p) (c # cs))
      else (case find_first cs p of
              None \<Rightarrow> None
            | Some (b, a) \<Rightarrow> Some (c # b, a)))"

fun expand_repl :: "string \<Rightarrow> string \<Rightarrow> string \<Rightarrow> string \<Rightarrow> string" where
  "expand_repl b m a [] = []"
| "expand_repl b m a [c] = [c]"
| "expand_repl b m a (c # d # r) =
     (if c = CHR ''$'' then
        (if d = CHR ''$'' then CHR ''$'' # expand_repl b m a r
         else if d = CHR ''&'' then m @ expand_repl b m a r
         else if d = CHR 0x60 then b @ expand_repl b m a r
         else if d = CHR 0x27 then a @ expand_repl b m a r
         else c # expand_repl b m a (d # r))
      else c # expand_repl b m a (d # r))"

definition js_replace :: "string \<Rightarrow> string \<Rightarrow> string \<Rightarrow> string" where
  "js_replace s p r =
     (case find_first s p of
        None \<Rightarrow> s
      | Some (b, a) \<Rightarrow> b @ expand_repl b p a r @ a)"

text \<open>Decimal rendering of integers, as a template literal renders a JavaScript integer.\<close>

definition digit :: "nat \<Rightarrow> char" where
  "digit d = ''0123456789'' ! (d mod 10)"

fun show_nat :: "nat \<Rightarrow> string" where
  "show_nat n = (if n < 10 then [digit n] else show_nat (n div 10) @ [digit n])"

declare show_nat.simps [simp del]

definition show_int :: "int \<Rightarrow> string" where
  "show_int i = (if i < 0 then CHR ''-'' # show_nat (nat (- i)) else show_nat (nat i))"

text \<open>
  \<^verbatim>\<open>x.toFixed(2)\<close> for \<open>0 \<le> x < 10^21\<close>: the integer \<open>n\<close> with \<open>n / 100\<close> nearest to
  \<open>x\<close> (the larger one on a tie), printed with two fraction digits.
  Numbers are exact reals here: \<^verbatim>\<open>/\<close> is exact division, where the source divides
  IEEE doubles.
\<close>

definition toFixed2 :: "real \<Rightarrow> string" where
  "toFixed2 x =
     (let n = nat \<lfloor>x * 100 + 1 / 2\<rfloor>
      in show_nat (n div 100) @ ''.'' @ [digit (n div 10), digit n])"

text \<open>
  \<^verbatim>\<open>s.split(c)\<close> and \<^verbatim>\<open>xs.join(c)\<close> for a one-character separator.
\<close>

fun split_acc :: "char \<Rightarrow> string \<Rightarrow> string \<Rightarrow> string list" where
  "split_acc c acc [] = [acc]"
| "split_acc c acc (x # xs) =
     (if x = c then acc # split_acc c [] xs else split_acc c (acc @ [x]) xs)"

definition js_split :: "string \<Rightarrow> char \<Rightarrow> string list" where
  "js_split s c = split_acc c [] s"

fun js_join :: "string list \<Rightarrow> char \<Rightarrow> string" where
  "js_join [] c = []"
| "js_join [w] c = w"
| "js_join (w # v # ws) c = w @ c # js_join (v # ws) c"

text \<open>
  Upper case for ASCII letters, other bytes kept: what \<^verbatim>\<open>toUpperCase\<close> does on ASCII
  strings. It is the \<open>toUpperCase\<close> of the sample inputs only; the model takes the
  function from the environment.
\<close>

definition upper_char :: "char \<Rightarrow> char" where
  "upper_char c =
     (case map_of (zip ''abcdefghijklmnopqrstuvwxyz'' ''ABCDEFGHIJKLMNOPQRSTUVWXYZ'') c of
        Some u \<Rightarrow> u
      | None \<Rightarrow> c)"

definition ascii_upper :: "string \<Rightarrow> string" where
  "ascii_upper s = map upper_char s"

text \<open>The zero-width space \<^verbatim>\<open>\u200b\<close> (three bytes in UTF-8).\<close>

definition zwsp :: string where
  "zwsp = [CHR 0xE2, CHR 0x80, CHR 0x8B]"

text \<open>
  \<^verbatim>\<open>s.padEnd(2, '\u200b')\<close>. The length is counted in bytes, which is JavaScript's
  length for ASCII language identifiers.
\<close>

definition padEnd2 :: "string \<Rightarrow> string" where
  "padEnd2 s = s @ concat (replicate (2 - length s) zwsp)"

section \<open>JavaScript values\<close>

text \<open>
  The values that reach the activity object and the image key: \<open>JImage img\<close> is an
  entry \<^verbatim>\<open>{ image: img }\<close> of the extension table.
\<close>

datatype jsval = JStr string | JNum int | JBool bool | JNull | JUndefined | JImage string

fun truthy :: "jsval \<Rightarrow> bool" where
  "truthy (JStr s) = (s \<noteq> [])"
| "truthy (JNum n) = (n \<noteq> 0)"
| "truthy (JBool b) = b"
| "truthy JNull = False"
| "truthy JUndefined = False"
| "truthy (JImage img) = True"

fun to_string :: "jsval \<Rightarrow> string" where
  "to_string (JStr s) = s"
| "to_string (JNum n) = show_int n"
| "to_string (JBool b) = (if b then ''true'' else ''false'')"
| "to_string JNull = ''null''"
| "to_string JUndefined = ''undefined''"
| "to_string (JImage img) = ''[object Object]''"

datatype exn = TypeError | StatError | SyntaxError | DestroyRejected

text \<open>
  \<^verbatim>\<open>largeImageKey ? largeImageKey.image || largeImageKey : 'txt'\<close> and
  \<^verbatim>\<open>largeImageKey ? (largeImageKey.image || largeImageKey).toUpperCase() : 'TXT'\<close>,
  the latter with the \<^verbatim>\<open>toUpperCase\<close> of strings as its first argument;
  a table entry whose image is the empty string stands for itself and has no
  \<^verbatim>\<open>toUpperCase\<close>.
\<close>

fun image_or_key :: "jsval \<Rightarrow> jsval" where
  "image_or_key (JImage img) = (if img \<noteq> [] then JStr img else JImage img)"
| "image_or_key k = k"

definition lang_label :: "jsval \<Rightarrow> jsval" where
  "lang_label largeImageKey =
     (if truthy largeImageKey then image_or_key largeImageKey else JStr ''txt'')"

definition lang_upper :: "(string \<Rightarrow> string) \<Rightarrow> jsval \<Rightarrow> exn + string" where
  "lang_upper upper largeImageKey =
     (if truthy largeImageKey then
        (case image_or_key largeImageKey of
           JStr s \<Rightarrow> Inr (upper s)
         | _ \<Rightarrow> Inl TypeError)
      else Inr ''TXT'')"

section \<open>The editor host, as sampled by one call\<close>

text \<open>
  The focused editor: its document and cursor, with what
  \<^verbatim>\<open>workspace.getWorkspaceFolder(document.uri)\<close> (the folder's name, when there is one)
  and \<^verbatim>\<open>workspace.asRelativePath(document.fileName)\<close> return for it.
\<close>

record editor =
  fileName :: string
  languageId :: string
  lineCount :: nat
  cursorLine :: nat
  cursorCharacter :: nat
  workspaceFolderName :: "string option"
  relativePath :: string

text \<open>
  The configuration section \<^verbatim>\<open>discord\<close>; \<open>template cfg key\<close> is
  \<^verbatim>\<open>config.get(key)\<close> for the keys that hold display strings.
\<close>

record config =
  enabled :: bool
  clientID :: string
  silent :: bool
  reconnectThreshold :: int
  cfg_workspaceElapsedTime :: bool
  template :: "string \<Rightarrow> string"

text \<open>
  Everything a handler reads from outside the module. \<open>statSync\<close> is \<open>None\<close> where
  the call throws; \<open>regex_test src flags s\<close> is \<^verbatim>\<open>new RegExp(src, flags).test(s)\<close>,
  \<open>None\<close> where the constructor throws; \<open>knownExtentions\<close> lists the table of
  \<^verbatim>\<open>data/languages.json\<close> in the order of \<^verbatim>\<open>Object.keys\<close>;
  \<open>toUpperCase\<close> is \<^verbatim>\<open>String.prototype.toUpperCase\<close>;
  \<open>destroy_resolves\<close> tells whether the promise of
  \<^verbatim>\<open>rpc.destroy()\<close> resolves; \<open>getConfiguration\<close> is what
  \<^verbatim>\<open>workspace.getConfiguration('discord')\<close> returns.
\<close>

record env =
  activeTextEditor :: "editor option"
  activeDebugSession :: bool
  appName :: string
  now :: int
  statSync :: "string \<Rightarrow> nat option"
  toLocaleString :: "nat \<Rightarrow> string"
  basename :: "string \<Rightarrow> string"
  parse_dir :: "string \<Rightarrow> string"
  sep :: char
  regex_test :: "string \<Rightarrow> string \<Rightarrow> string \<Rightarrow> bool option"
  knownExtentions :: "(string \<times> string) list"
  knownLanguages :: "string list"
  toUpperCase :: "string \<Rightarrow> string"
  destroy_resolves :: bool
  getConfiguration :: config

record FileDetail =
  size_fd :: "string option"
  totalLines :: "string option"
  currentLine :: "string option"
  currentColumn :: "string option"

section \<open>getFileDetails\<close>

text \<open>
  The loop \<^verbatim>\<open>while (size > 1000) { currentDivision++; size = size / 1000; }\<close>, together
  with the first division guarded by \<^verbatim>\<open>originalSize > 1000\<close> (the same test on the same
  value).
\<close>

function scale :: "real \<Rightarrow> nat \<Rightarrow> real \<times> nat" where
  "scale sz currentDivision =
     (if sz > 1000 then scale (sz / 1000) (Suc currentDivision) else (sz, currentDivision))"
  by pat_completeness auto
termination
proof (relation "measure (\<lambda>(sz, d). nat \<lfloor>sz\<rfloor>)")
  show "wf (measure (\<lambda>(sz :: real, d :: nat). nat \<lfloor>sz\<rfloor>))" by simp
next
  fix sz :: real and currentDivision :: nat
  assume big: "1000 < sz"
  have "sz / 1000 < sz - 1" using big by (simp add: field_simps)
  then have "\<lfloor>sz / 1000\<rfloor> < \<lfloor>sz\<rfloor>" by linarith
  moreover have "0 < \<lfloor>sz\<rfloor>" using big by linarith
  ultimately show "((sz / 1000, Suc currentDivision), (sz, currentDivision))
      \<in> measure (\<lambda>(sz, d). nat \<lfloor>sz\<rfloor>)"
    by simp
qed

declare scale.simps [simp del]

text \<open>
  \<^verbatim>\<open>sizes[currentDivision]\<close> inside a template literal: an index past the end of the
  array reads \<^verbatim>\<open>undefined\<close>, which the template literal prints as that word.
\<close>

definition sizes :: "string list" where
  "sizes = ['' bytes'', ''kb'', ''mb'', ''gb'', ''tb'']"

definition sizes_at :: "nat \<Rightarrow> string" where
  "sizes_at i = (if i < length sizes then sizes ! i else ''undefined'')"

definition format_size :: "nat \<Rightarrow> string" where
  "format_size originalSize =
     (let (sz, currentDivision) = scale (of_nat originalSize) 0
      in (if originalSize > 1000 then toFixed2 sz else show_nat originalSize)
         @ sizes_at currentDivision)"


text \<open>
  \<open>getFileDetails\<close> returns the paths it passed to \<^verbatim>\<open>statSync\<close>, in order, and
  either the exception it threw or the object it returned.
\<close>

definition getFileDetails :: "env \<Rightarrow> string \<Rightarrow> string list \<times> (exn + FileDetail)" where
  "getFileDetails e rawString =
     (let obj = \<lparr>size_fd = None, totalLines = None, currentLine = None, currentColumn = None\<rparr>
      in if rawString = [] then ([], Inr obj)
         else
           (case activeTextEditor e of
              None \<Rightarrow>
                (if includes_str rawString ''{totallines}''
                    \<or> includes_str rawString ''{currentline}''
                    \<or> includes_str rawString ''{currentcolumn}''
                    \<or> includes_str rawString ''{filesize}''
                 then ([], Inl TypeError) else ([], Inr obj))
            | Some ed \<Rightarrow>
                (let obj1 = (if includes_str rawString ''{totallines}''
                             then obj\<lparr>totalLines := Some (toLocaleString e (lineCount ed))\<rparr>
                             else obj);
                     obj2 = (if includes_str rawString ''{currentline}''
                             then obj1\<lparr>currentLine := Some (toLocaleString e (cursorLine ed + 1))\<rparr>
                             else obj1);
                     obj3 = (if includes_str rawString ''{currentcolumn}''
                             then obj2\<lparr>currentColumn :=
                                    Some (toLocaleString e (cursorCharacter ed + 1))\<rparr>
                             else obj2)
                 in if includes_str rawString ''{filesize}'' then
                      (case statSync e (fileName ed) of
                         None \<Rightarrow> ([fileName ed], Inl StatError)
                       | Some originalSize \<Rightarrow>
                           ([fileName ed], Inr (obj3\<lparr>size_fd := Some (format_size originalSize)\<rparr>)))
                    else ([], Inr obj3))))"

section \<open>generateDetails\<close>

text \<open>
  The debugging and the editing branch of \<^verbatim>\<open>generateDetails\<close> run the same statements
  on the template of their own key; \<open>render\<close> is that shared body. The file details are
  fetched before any placeholder is replaced, and the upper-cased label is the only
  argument of the chain that can throw.
\<close>

definition emptySpaces :: string where
  "emptySpaces = zwsp @ zwsp"

definition replace_if :: "string option \<Rightarrow> string \<Rightarrow> string \<Rightarrow> string" where
  "replace_if v p s = (case v of None \<Rightarrow> s | Some r \<Rightarrow> if r \<noteq> [] then js_replace s p r else s)"

definition render ::
  "env \<Rightarrow> config \<Rightarrow> editor \<Rightarrow> string \<Rightarrow> jsval \<Rightarrow> string list \<times> (exn + string)" where
  "render e cfg ed key largeImageKey =
     (let fileName' = basename e (fileName ed);
          dirName = last (js_split (parse_dir e (fileName ed)) (sep e));
          checkState = (workspaceFolderName ed \<noteq> None);
          fullDirName =
            (case workspaceFolderName ed of
               None \<Rightarrow> JNull
             | Some name \<Rightarrow>
                 JStr (name @ [sep e]
                       @ js_join (butlast (js_split (relativePath ed) (sep e))) (sep e)));
          rawString = template cfg key;
          (stats, fd) = getFileDetails e rawString
      in case fd of
           Inl x \<Rightarrow> (stats, Inl x)
         | Inr d \<Rightarrow>
             (let r1 = js_replace rawString ''{null}'' emptySpaces;
                  r2 = js_replace r1 ''{filename}'' fileName';
                  r3 = js_replace r2 ''{dirname}'' dirName;
                  r4 = js_replace r3 ''{fulldirname}'' (to_string fullDirName);
                  r5 = js_replace r4 ''{workspace}''
                         (case workspaceFolderName ed of
                            Some name \<Rightarrow> name
                          | None \<Rightarrow>
                              js_replace (template cfg ''lowerDetailsNotFound'') ''{null}''
                                emptySpaces);
                  r6 = js_replace r5 ''{lang}'' (to_string (lang_label largeImageKey))
              in case lang_upper (toUpperCase e) largeImageKey of
                   Inl x \<Rightarrow> (stats, Inl x)
                 | Inr up \<Rightarrow>
                     (let r7 = js_replace r6 ''{LANG}'' up;
                          r8 = replace_if (totalLines d) ''{totallines}'' r7;
                          r9 = replace_if (size_fd d) ''{filesize}'' r8;
                          r10 = replace_if (currentLine d) ''{currentline}'' r9;
                          r11 = replace_if (currentColumn d) ''{currentcolumn}'' r10
                      in (stats, Inr r11))))"

definition generateDetails ::
  "env \<Rightarrow> config \<Rightarrow> string \<Rightarrow> string \<Rightarrow> string \<Rightarrow> jsval
    \<Rightarrow> string list \<times> (exn + string)" where
  "generateDetails e cfg debugging editing idling largeImageKey =
     (let string0 = js_replace (template cfg idling) ''{null}'' emptySpaces
      in case activeTextEditor e of
           None \<Rightarrow> ([], Inr string0)
         | Some ed \<Rightarrow>
             (if activeDebugSession e then render e cfg ed debugging largeImageKey
              else render e cfg ed editing largeImageKey))"

section \<open>Module state\<close>

record StatusBarItem =
  sb_text :: string
  sb_command :: string
  sb_visible :: bool

text \<open>The calls a handler makes on its collaborators, in the order it makes them.\<close>

datatype effect =
    ConsoleLog string
  | ConsoleError string
  | ShowInformationMessage string
  | ShowErrorMessage string
  | NewClient nat
  | OnceReady nat bool
  | OnceClose nat
  | Login nat string
  | ClientDestroy nat
  | RpcSetActivity nat "(string \<times> jsval) list option"
  | SetTimeout nat
  | SetInterval nat
  | ClearInterval nat
  | CreateStatusBarItem
  | StatusBarShow
  | StatusBarDispose
  | StatSync string

text \<open>
  The module-level variables. A client and a timer are the number under which they were
  created (\<open>fresh\<close> counts them); \<^verbatim>\<open>null\<close> and \<^verbatim>\<open>undefined\<close> are \<open>None\<close>; the activity
  object lists its properties in order.
\<close>

record state =
  rpc :: "nat option"
  config :: config
  reconnecting :: bool
  reconnectCounter :: int
  lastKnownFile :: "string option"
  activity :: "(string \<times> jsval) list option"
  activityTimer :: "nat option"
  statusBarIcon :: "StatusBarItem option"
  effects :: "effect list"
  fresh :: nat

definition emit :: "effect list \<Rightarrow> state \<Rightarrow> state" where
  "emit fx s = s\<lparr>effects := effects s @ fx\<rparr>"

section \<open>setActivity\<close>

definition smallImageKey :: "env \<Rightarrow> string" where
  "smallImageKey e =
     (if activeDebugSession e then ''debug''
      else if includes_str (appName e) ''Insiders'' then ''vscode-insiders''
      else ''vscode'')"

text \<open>
  \<^verbatim>\<open>key.match(/^\/(.*)\/([mgiy]+)$/)\<close>: the flags are what follows the last slash, the
  source what lies between the first and the last; the dot matches no line terminator.
\<close>

definition parse_regex_key :: "string \<Rightarrow> (string \<times> string) option" where
  "parse_regex_key key =
     (case key of
        [] \<Rightarrow> None
      | c # rest \<Rightarrow>
          (let flags = rev (takeWhile (\<lambda>x. x \<noteq> CHR ''/'') (rev rest));
               upto_slash = take (length rest - length flags) rest;
               src = butlast upto_slash
           in if c = CHR ''/'' \<and> upto_slash \<noteq> [] \<and> flags \<noteq> []
                 \<and> list_all (\<lambda>x. x \<in> set ''mgiy'') flags
                 \<and> list_all (\<lambda>x. x \<noteq> CHR 0x0A \<and> x \<noteq> CHR 0x0D) src
                 \<and> \<not> includes_str src [CHR 0xE2, CHR 0x80, CHR 0xA8]
                 \<and> \<not> includes_str src [CHR 0xE2, CHR 0x80, CHR 0xA9]
              then Some (src, flags) else None))"

text \<open>The callback of \<^verbatim>\<open>Object.keys(knownExtentions).find\<close>, run over the keys in order.\<close>

fun find_key :: "env \<Rightarrow> string \<Rightarrow> string list \<Rightarrow> exn + string option" where
  "find_key e fileName' [] = Inr None"
| "find_key e fileName' (key # keys) =
     (if startsWith key ''.'' \<and> endsWith fileName' key then Inr (Some key)
      else
        (case parse_regex_key key of
           None \<Rightarrow> find_key e fileName' keys
         | Some (src, flags) \<Rightarrow>
             (case regex_test e src flags fileName' of
                None \<Rightarrow> Inl SyntaxError
              | Some True \<Rightarrow> Inr (Some key)
              | Some False \<Rightarrow> find_key e fileName' keys)))"

text \<open>
  The \<^verbatim>\<open>largeImageKey\<close> constant of a full rebuild. A key that \<^verbatim>\<open>find\<close> does not
  find indexes the table with \<^verbatim>\<open>undefined\<close>, that is with the property of that name.
\<close>

definition resolve_largeImageKey :: "env \<Rightarrow> exn + jsval" where
  "resolve_largeImageKey e =
     (case activeTextEditor e of
        None \<Rightarrow> Inr (JStr ''vscode-big'')
      | Some ed \<Rightarrow>
          (case find_key e (basename e (fileName ed)) (map fst (knownExtentions e)) of
             Inl x \<Rightarrow> Inl x
           | Inr found \<Rightarrow>
               (case map_of (knownExtentions e)
                       (case found of None \<Rightarrow> ''undefined'' | Some key \<Rightarrow> key) of
                  Some img \<Rightarrow> Inr (JImage img)
                | None \<Rightarrow>
                    Inr (if languageId ed \<in> set (knownLanguages e)
                         then JStr (languageId ed) else JNull))))"

text \<open>The spread \<^verbatim>\<open>{...activity, k: v}\<close>; spreading \<^verbatim>\<open>undefined\<close> adds nothing.\<close>

definition spread :: "(string \<times> jsval) list option \<Rightarrow> (string \<times> jsval) list" where
  "spread a = (case a of None \<Rightarrow> [] | Some props \<Rightarrow> props)"

definition get_prop :: "(string \<times> jsval) list \<Rightarrow> string \<Rightarrow> jsval" where
  "get_prop props k = (case map_of props k of None \<Rightarrow> JUndefined | Some v \<Rightarrow> v)"

definition largeImageText :: "env \<Rightarrow> config \<Rightarrow> jsval \<Rightarrow> exn + string" where
  "largeImageText e cfg largeImageKey =
     (case activeTextEditor e of
        None \<Rightarrow> Inr (template cfg ''largeImageIdle'')
      | Some ed \<Rightarrow>
          (let r1 = js_replace (template cfg ''largeImage'') ''{lang}''
                      (to_string (lang_label largeImageKey))
           in case lang_upper (toUpperCase e) largeImageKey of
                Inl x \<Rightarrow> Inl x
              | Inr up \<Rightarrow>
                  (let r2 = js_replace r1 ''{LANG}'' up
                   in Inr (if r2 \<noteq> [] then r2 else padEnd2 (languageId ed)))))"

text \<open>
  \<^verbatim>\<open>this.largeImageKey\<close> inside \<^verbatim>\<open>setActivity\<close>, \<open>None\<close> where reading it throws.
  \<^verbatim>\<open>setActivity\<close> is a function declaration of a module (strict code) and every call
  of it is the plain call \<^verbatim>\<open>setActivity(...)\<close> (in the \<^verbatim>\<open>ready\<close> handler and in the
  timer callback), so \<^verbatim>\<open>this\<close> is \<^verbatim>\<open>undefined\<close> there and the property access throws a
  \<^verbatim>\<open>TypeError\<close>.
\<close>

definition this_largeImageKey :: "jsval option" where
  "this_largeImageKey = None"

text \<open>
  The branch of \<^verbatim>\<open>setActivity\<close> for an unchanged file. The argument
  \<^verbatim>\<open>this.largeImageKey\<close> of the first call of \<^verbatim>\<open>generateDetails\<close> is evaluated before
  that call and before \<^verbatim>\<open>activity\<close> is assigned.
\<close>

definition partial_update :: "env \<Rightarrow> state \<Rightarrow> exn option \<times> state" where
  "partial_update e s =
     (case this_largeImageKey of
        None \<Rightarrow> (Some TypeError, s)
      | Some k \<Rightarrow>
          (let (st1, details) =
                 generateDetails e (config s) ''detailsDebugging'' ''detailsEditing''
                   ''detailsIdle'' k
           in case details of
                Inl x \<Rightarrow> (Some x, emit (map StatSync st1) s)
              | Inr d \<Rightarrow>
                  (let (st2, state') =
                         generateDetails e (config s) ''lowerDetailsDebugging''
                           ''lowerDetailsEditing'' ''lowerDetailsIdle'' k
                   in case state' of
                        Inl x \<Rightarrow> (Some x, emit (map StatSync (st1 @ st2)) s)
                      | Inr st \<Rightarrow>
                          (None,
                           emit (map StatSync (st1 @ st2))
                             (s\<lparr>activity :=
                                  Some (AList.update ''smallImageKey'' (JStr (smallImageKey e))
                                         (AList.update ''state'' (JStr st)
                                           (AList.update ''details'' (JStr d)
                                             (spread (activity s)))))\<rparr>)))))"

definition startTimestamp :: "env \<Rightarrow> bool \<Rightarrow> jsval \<Rightarrow> jsval" where
  "startTimestamp e workspaceElapsedTime previousTimestamp =
     (if activeTextEditor e \<noteq> None \<and> truthy previousTimestamp \<and> workspaceElapsedTime
      then previousTimestamp
      else if activeTextEditor e \<noteq> None then JNum (now e) else JNull)"

definition full_rebuild :: "env \<Rightarrow> bool \<Rightarrow> state \<Rightarrow> exn option \<times> state" where
  "full_rebuild e workspaceElapsedTime s0 =
     (let s = s0\<lparr>lastKnownFile := map_option fileName (activeTextEditor e)\<rparr>
      in case resolve_largeImageKey e of
           Inl x \<Rightarrow> (Some x, s)
         | Inr largeImageKey \<Rightarrow>
             (let previousTimestamp =
                    (case activity s of
                       None \<Rightarrow> JNull
                     | Some props \<Rightarrow> get_prop props ''startTimestamp'');
                  (st1, details) =
                    generateDetails e (config s) ''detailsDebugging'' ''detailsEditing''
                      ''detailsIdle'' largeImageKey
              in case details of
                   Inl x \<Rightarrow> (Some x, emit (map StatSync st1) s)
                 | Inr d \<Rightarrow>
                     (let (st2, state') =
                            generateDetails e (config s) ''lowerDetailsDebugging''
                              ''lowerDetailsEditing'' ''lowerDetailsIdle'' largeImageKey
                      in case state' of
                           Inl x \<Rightarrow> (Some x, emit (map StatSync (st1 @ st2)) s)
                         | Inr st \<Rightarrow>
                             (case largeImageText e (config s) largeImageKey of
                                Inl x \<Rightarrow> (Some x, emit (map StatSync (st1 @ st2)) s)
                              | Inr lit \<Rightarrow>
                                  (None,
                                   emit (map StatSync (st1 @ st2))
                                     (s\<lparr>activity := Some
                                          [(''details'', JStr d),
                                           (''state'', JStr st),
                                           (''startTimestamp'',
                                              startTimestamp e workspaceElapsedTime
                                                previousTimestamp),
                                           (''largeImageKey'', lang_label largeImageKey),
                                           (''largeImageText'', JStr lit),
                                           (''smallImageKey'', JStr (smallImageKey e)),
                                           (''smallImageText'',
                                              JStr (js_replace (template (config s) ''smallImage'')
                                                      ''{appname}'' (appName e))),
                                           (''instance'', JBool False)]\<rparr>))))))"

definition setActivity :: "env \<Rightarrow> bool \<Rightarrow> state \<Rightarrow> exn option \<times> state" where
  "setActivity e workspaceElapsedTime s =
     (if rpc s = None then (None, s)
      else if activeTextEditor e \<noteq> None
              \<and> map_option fileName (activeTextEditor e) = lastKnownFile s
      then partial_update e s
      else full_rebuild e workspaceElapsedTime s)"

section \<open>Connection lifecycle\<close>

text \<open>
  Each handler is run to its end before the next event is handled: the points where the
  source awaits are not interleaved with other handlers. A handler returns the exception
  it threw, if any, and the module state it left behind.
\<close>

definition attempts_text :: "int \<Rightarrow> string" where
  "attempts_text attempts =
     ''$(issue-reopened) Reconnecting: '' @ show_int attempts @ '' attempt''
       @ (if attempts = 1 then [] else ''s'') @ '' left''"

definition createButton :: "bool \<Rightarrow> state \<Rightarrow> state" where
  "createButton isReconnecting s =
     (let attempts = reconnectThreshold (config s) - reconnectCounter s;
          txt = (if isReconnecting then attempts_text attempts
                 else ''$(plug) Reconnect to Discord'');
          cmd = (if isReconnecting then [] else ''discord.reconnect'')
      in case statusBarIcon s of
           None \<Rightarrow>
             emit [CreateStatusBarItem, StatusBarShow]
               (s\<lparr>statusBarIcon :=
                    Some \<lparr>sb_text = txt, sb_command = cmd, sb_visible = True\<rparr>\<rparr>)
         | Some item \<Rightarrow>
             s\<lparr>statusBarIcon := Some (item\<lparr>sb_text := txt, sb_command := cmd\<rparr>)\<rparr>)"

definition destroyRPC :: "env \<Rightarrow> state \<Rightarrow> exn option \<times> state" where
  "destroyRPC e s =
     (case rpc s of
        None \<Rightarrow> (None, s)
      | Some client \<Rightarrow>
          (let s1 = emit ((case activityTimer s of None \<Rightarrow> [] | Some t \<Rightarrow> [ClearInterval t])
                          @ [ClientDestroy client])
                      (s\<lparr>reconnecting := False, activityTimer := None\<rparr>)
           in if destroy_resolves e
              then (None, s1\<lparr>rpc := None, lastKnownFile := None\<rparr>)
              else (Some DestroyRejected, s1)))"

text \<open>
  \<open>initRPC\<close> creates the client, registers the one-shot \<^verbatim>\<open>ready\<close> handler (which keeps
  \<open>loud\<close>) and starts the login; the outcome of the login arrives later, as the event
  \<open>on_ready\<close> or \<open>on_login_error\<close>.
\<close>

definition initRPC :: "string \<Rightarrow> bool \<Rightarrow> state \<Rightarrow> state" where
  "initRPC clientID' loud s =
     emit [NewClient (fresh s), OnceReady (fresh s) loud, Login (fresh s) clientID']
       (s\<lparr>rpc := Some (fresh s), fresh := Suc (fresh s)\<rparr>)"

text \<open>The callback of \<^verbatim>\<open>setInterval\<close>, every 15 seconds.\<close>

definition on_timer :: "env \<Rightarrow> state \<Rightarrow> exn option \<times> state" where
  "on_timer e s =
     (let s1 = s\<lparr>config := getConfiguration e\<rparr>;
          (x, s2) = setActivity e (cfg_workspaceElapsedTime (config s1)) s1
      in case x of
           Some ex \<Rightarrow> (Some ex, s2)
         | None \<Rightarrow>
             (case rpc s2 of
                None \<Rightarrow> (Some TypeError, s2)
              | Some client \<Rightarrow> (None, emit [RpcSetActivity client (activity s2)] s2)))"

text \<open>
  The callback of \<^verbatim>\<open>rpc.once('ready', ...)\<close> of a client created with \<open>loud\<close>, in
  three parts: the statements before the call of \<^verbatim>\<open>setActivity\<close>, the call, and the
  statements after it.
\<close>

definition ready_reset :: "bool \<Rightarrow> state \<Rightarrow> state" where
  "ready_reset loud s =
     (let s1 = emit (ConsoleLog ''[Discord Presence]: Successfully connected to Discord''
                     # (if loud \<and> \<not> silent (config s)
                        then [ShowInformationMessage ''Successfully reconnected to Discord RPC'']
                        else [])) s;
          s2 = (case statusBarIcon s1 of
                  None \<Rightarrow> s1
                | Some item \<Rightarrow> emit [StatusBarDispose] (s1\<lparr>statusBarIcon := None\<rparr>));
          s3 = s2\<lparr>reconnecting := False\<rparr>;
          s4 = (case activityTimer s3 of
                  None \<Rightarrow> s3
                | Some t \<Rightarrow> emit [ClearInterval t] (s3\<lparr>activityTimer := None\<rparr>))
      in s4\<lparr>reconnectCounter := 0\<rparr>)"

definition ready_start :: "state \<Rightarrow> exn option \<times> state" where
  "ready_start s =
     (case rpc s of
        None \<Rightarrow> (Some TypeError, emit [SetTimeout 500] s)
      | Some client \<Rightarrow>
          (None,
           emit [SetTimeout 500, OnceClose client, SetInterval (fresh s)]
             (s\<lparr>activityTimer := Some (fresh s), fresh := Suc (fresh s)\<rparr>)))"

definition on_ready :: "bool \<Rightarrow> env \<Rightarrow> state \<Rightarrow> exn option \<times> state" where
  "on_ready loud e s =
     (let (x, s1) = setActivity e False (ready_reset loud s)
      in case x of
           Some ex \<Rightarrow> (Some ex, s1)
         | None \<Rightarrow> ready_start s1)"

text \<open>The callback of \<^verbatim>\<open>rpc.transport.once('close', ...)\<close>.\<close>

definition on_close :: "env \<Rightarrow> state \<Rightarrow> exn option \<times> state" where
  "on_close e s =
     (if \<not> enabled (config s) then (None, s)
      else
        (let (x, s1) = destroyRPC e s
         in case x of
              Some ex \<Rightarrow> (Some ex, s1)
            | None \<Rightarrow>
                (None,
                 createButton True
                   (initRPC (clientID (config s1)) False (s1\<lparr>reconnecting := True\<rparr>)))))"

text \<open>
  The rejection handler of \<^verbatim>\<open>rpc.login(...)\<close>. An error carries its \<^verbatim>\<open>message\<close> and
  the text of \<^verbatim>\<open>toString()\<close>.
\<close>

record login_error =
  err_message :: string
  err_toString :: string

definition announce :: "login_error \<Rightarrow> state \<Rightarrow> state" where
  "announce err s =
     (if \<not> silent (config s) then
        createButton False
          (emit [if includes_str (err_message err) ''ENOENT''
                 then ShowErrorMessage ''No Discord Client detected!''
                 else ShowErrorMessage
                        (''Couldn't connect to Discord via RPC: '' @ err_toString err)] s)
      else s)"

definition on_login_error :: "env \<Rightarrow> login_error \<Rightarrow> state \<Rightarrow> exn option \<times> state" where
  "on_login_error e err s0 =
     (let s = emit [ConsoleError (''[Discord Presence]: '' @ err_toString err)] s0
      in if reconnecting s then
           (if reconnectCounter s \<ge> reconnectThreshold (config s) then
              (let (x, s1) = destroyRPC e (createButton False s)
               in case x of
                    Some ex \<Rightarrow> (Some ex, s1)
                  | None \<Rightarrow> (None, announce err s1))
            else
              (None,
               initRPC (clientID (config s)) False
                 (createButton True (s\<lparr>reconnectCounter := reconnectCounter s + 1\<rparr>))))
         else (None, announce err s))"

text \<open>
  \<open>login_failures\<close> delivers consecutive login failures, each with the outside world
  of its moment; an exception thrown by a handler is dropped, as the event loop does.
\<close>

fun login_failures :: "(env \<times> login_error) list \<Rightarrow> state \<Rightarrow> state" where
  "login_failures [] s = s"
| "login_failures ((e, err) # rest) s = login_failures rest (snd (on_login_error e err s))"

text \<open>
  The command \<^verbatim>\<open>discord.reconnect\<close>; the \<^verbatim>\<open>try\<close> around \<^verbatim>\<open>destroyRPC\<close> drops its
  exception and keeps the state the call left.
\<close>

definition reconnect :: "env \<Rightarrow> state \<Rightarrow> state" where
  "reconnect e s =
     (let s1 = (if rpc s \<noteq> None then snd (destroyRPC e s) else s);
          s2 = initRPC (clientID (config s1)) True s1;
          s3 = (if \<not> silent (config s2)
                then emit [ShowInformationMessage ''Reconnecting to Discord RPC''] s2
                else s2)
      in case statusBarIcon s3 of
           None \<Rightarrow> s3
         | Some item \<Rightarrow> s3\<lparr>statusBarIcon := Some (item\<lparr>sb_text := ''$(pulse) Reconnecting''\<rparr>)\<rparr>)"

text \<open>Two calls of \<^verbatim>\<open>destroyRPC\<close> in succession: the second runs if the first returned.\<close>

definition destroyRPC_twice :: "env \<Rightarrow> env \<Rightarrow> state \<Rightarrow> exn option \<times> state" where
  "destroyRPC_twice e1 e2 s =
     (let (x, s1) = destroyRPC e1 s
      in case x of Some ex \<Rightarrow> (Some ex, s1) | None \<Rightarrow> destroyRPC e2 s1)"

section \<open>Observations on the effect log\<close>

text \<open>
  \<open>new_effects s s'\<close> is what a handler run from \<open>s\<close> to \<open>s'\<close> added to the log;
  \<open>logins\<close> counts the login attempts in a log, \<open>error_notices\<close> and
  \<open>info_notices\<close> list the messages shown to the user.
\<close>

definition new_effects :: "state \<Rightarrow> state \<Rightarrow> effect list" where
  "new_effects s s' = drop (length (effects s)) (effects s')"

fun is_Login :: "effect \<Rightarrow> bool" where
  "is_Login (Login client cid) = True"
| "is_Login fx = False"

definition logins :: "effect list \<Rightarrow> nat" where
  "logins fx = length (filter is_Login fx)"

fun error_notices :: "effect list \<Rightarrow> string list" where
  "error_notices [] = []"
| "error_notices (ShowErrorMessage m # fx) = m # error_notices fx"
| "error_notices (x # fx) = error_notices fx"

fun info_notices :: "effect list \<Rightarrow> string list" where
  "info_notices [] = []"
| "info_notices (ShowInformationMessage m # fx) = m # info_notices fx"
| "info_notices (x # fx) = info_notices fx"

fun stat_calls :: "effect list \<Rightarrow> string list" where
  "stat_calls [] = []"
| "stat_calls (StatSync p # fx) = p # stat_calls fx"
| "stat_calls (x # fx) = stat_calls fx"

section \<open>Sample inputs\<close>

definition demo_template :: "string \<Rightarrow> string" where
  "demo_template key =
     (if key = ''detailsEditing'' then ''Editing {filename}''
      else if key = ''detailsDebugging'' then ''Debugging {filename}''
      else if key = ''detailsIdle'' then ''Idling''
      else if key = ''lowerDetailsEditing'' then ''Workspace: {workspace}''
      else if key = ''lowerDetailsDebugging'' then ''Debugging: {workspace}''
      else if key = ''lowerDetailsIdle'' then ''Idling''
      else if key = ''lowerDetailsNotFound'' then ''No workspace found''
      else if key = ''largeImage'' then ''Editing a {LANG} file''
      else if key = ''largeImageIdle'' then ''Idling''
      else if key = ''smallImage'' then ''{appname}''
      else [])"

definition demo_config :: config where
  "demo_config =
     \<lparr>enabled = True, clientID = ''383226320970055681'', silent = False,
      reconnectThreshold = 3, cfg_workspaceElapsedTime = False, template = demo_template\<rparr>"

definition demo_editor :: editor where
  "demo_editor =
     \<lparr>fileName = ''/home/u/proj/main.rs'', languageId = ''rust'', lineCount = 120,
      cursorLine = 4, cursorCharacter = 7, workspaceFolderName = Some ''proj'',
      relativePath = ''main.rs''\<rparr>"

definition demo_env :: env where
  "demo_env =
     \<lparr>activeTextEditor = Some demo_editor, activeDebugSession = False,
      appName = ''Visual Studio Code - Insiders'', now = 5000,
      statSync = (\<lambda>p. Some 2000000000000000), toLocaleString = show_nat,
      basename = (\<lambda>p. ''main.rs''), parse_dir = (\<lambda>p. ''/home/u/proj''), sep = CHR ''/'',
      regex_test = (\<lambda>src flags s. Some False), knownExtentions = [(''.rs'', ''rust'')],
      knownLanguages = [''rust''], toUpperCase = ascii_upper,
      destroy_resolves = True, getConfiguration = demo_config\<rparr>"

definition idle_env :: env where
  "idle_env = demo_env\<lparr>activeTextEditor := None\<rparr>"

text \<open>A state in the middle of a reconnect: a login is under way, no failure yet.\<close>

definition demo_state :: state where
  "demo_state =
     \<lparr>rpc = Some 0, config = demo_config, reconnecting = True, reconnectCounter = 0,
      lastKnownFile = None, activity = None, activityTimer = None, statusBarIcon = None,
      effects = [], fresh = 1\<rparr>"

text \<open>A connected state: the file of \<open>demo_editor\<close> was the last one built.\<close>

definition ready_state :: state where
  "ready_state =
     \<lparr>rpc = Some 0, config = demo_config, reconnecting = False, reconnectCounter = 0,
      lastKnownFile = Some ''/home/u/proj/main.rs'',
      activity = Some [(''details'', JStr ''Editing old.rs''),
                       (''state'', JStr ''Workspace: proj''),
                       (''startTimestamp'', JNum 1000),
                       (''largeImageKey'', JStr ''rust''),
                       (''largeImageText'', JStr ''Editing a RUST file''),
                       (''smallImageKey'', JStr ''vscode''),
                       (''smallImageText'', JStr ''Visual Studio Code''),
                       (''instance'', JBool False)],
      activityTimer = Some 1, statusBarIcon = None, effects = [], fresh = 2\<rparr>"

definition enoent :: login_error where
  "enoent =
     \<lparr>err_message = ''connect ENOENT /run/user/1000/discord-ipc-0'',
      err_toString = ''Error: connect ENOENT /run/user/1000/discord-ipc-0''\<rparr>"

definition timeout_error :: login_error where
  "timeout_error =
     \<lparr>err_message = ''RPC_CONNECTION_TIMEOUT'', err_toString = ''Error: RPC_CONNECTION_TIMEOUT''\<rparr>"

section \<open>Frame lemmas\<close>

lemma login_failures_append:
  "login_failures (xs @ ys) s = login_failures ys (login_failures xs s)"
  by (induction xs arbitrary: s) auto

lemma logins_append: "logins (xs @ ys) = logins xs + logins ys"
  by (simp add: logins_def)

lemma logins_Nil: "logins [] = 0"
  by (simp add: logins_def)

lemma logins_Cons: "logins (x # xs) = (if is_Login x then 1 else 0) + logins xs"
  by (simp add: logins_def)

lemmas logins_simps = logins_append logins_Nil logins_Cons

lemma setActivity_frame:
  "setActivity e w s = (x, s') \<Longrightarrow>
     rpc s' = rpc s \<and> config s' = config s \<and> reconnecting s' = reconnecting s
     \<and> reconnectCounter s' = reconnectCounter s \<and> activityTimer s' = activityTimer s
     \<and> statusBarIcon s' = statusBarIcon s \<and> fresh s' = fresh s"
  by (auto simp: setActivity_def partial_update_def full_rebuild_def emit_def Let_def
      split: option.splits sum.splits prod.splits if_splits)

lemma on_ready_counter: "reconnectCounter (snd (on_ready loud e s)) = 0"
proof -
  obtain x s1 where sa: "setActivity e False (ready_reset loud s) = (x, s1)"
    by (cases "setActivity e False (ready_reset loud s)") auto
  have "reconnectCounter (ready_reset loud s) = 0"
    by (simp add: ready_reset_def Let_def emit_def split: option.splits)
  with setActivity_frame[OF sa] have "reconnectCounter s1 = 0" by simp
  then show ?thesis
    by (simp add: on_ready_def sa ready_start_def emit_def split: option.splits)
qed

lemma createButton_frame:
  "rpc (createButton b s) = rpc s \<and> config (createButton b s) = config s
   \<and> reconnecting (createButton b s) = reconnecting s
   \<and> reconnectCounter (createButton b s) = reconnectCounter s
   \<and> fresh (createButton b s) = fresh s
   \<and> logins (effects (createButton b s)) = logins (effects s)"
  by (simp add: createButton_def Let_def emit_def logins_simps split: option.splits)

lemma createButton_icon:
  "\<exists>item. statusBarIcon (createButton b s) = Some item
     \<and> sb_text item = (if b then attempts_text (reconnectThreshold (config s) - reconnectCounter s)
                       else ''$(plug) Reconnect to Discord'')
     \<and> sb_command item = (if b then [] else ''discord.reconnect'')"
  by (simp add: createButton_def Let_def emit_def split: option.splits)

lemma announce_frame:
  "config (announce err s) = config s \<and> reconnectCounter (announce err s) = reconnectCounter s
   \<and> reconnecting (announce err s) = reconnecting s \<and> rpc (announce err s) = rpc s
   \<and> logins (effects (announce err s)) = logins (effects s)"
  by (simp add: announce_def createButton_frame emit_def logins_simps)

lemma destroyRPC_frame:
  "config (snd (destroyRPC e s)) = config s
   \<and> reconnectCounter (snd (destroyRPC e s)) = reconnectCounter s
   \<and> statusBarIcon (snd (destroyRPC e s)) = statusBarIcon s
   \<and> logins (effects (snd (destroyRPC e s))) = logins (effects s)"
  by (simp add: destroyRPC_def Let_def emit_def logins_simps split: option.splits)

lemma emit_Nil: "emit [] s = s"
  by (simp add: emit_def)

lemma error_notices_append: "error_notices (xs @ ys) = error_notices xs @ error_notices ys"
  by (induction xs rule: error_notices.induct) auto

lemma info_notices_append: "info_notices (xs @ ys) = info_notices xs @ info_notices ys"
  by (induction xs rule: info_notices.induct) auto

lemma destroyRPC_effects:
  "\<exists>fx. effects (snd (destroyRPC e s)) = effects s @ fx \<and> info_notices fx = []
     \<and> error_notices fx = []"
  by (auto simp: destroyRPC_def Let_def emit_def split: option.splits)

lemma createButton_effects:
  "\<exists>fx. effects (createButton b s) = effects s @ fx \<and> info_notices fx = []
     \<and> error_notices fx = []"
  by (auto simp: createButton_def Let_def emit_def split: option.splits)

lemma generateDetails_idle:
  "activeTextEditor e = None \<Longrightarrow>
   generateDetails e cfg debugging editing idling k
     = ([], Inr (js_replace (template cfg idling) ''{null}'' emptySpaces))"
  by (simp add: generateDetails_def)

text \<open>
  The branch for an unchanged file throws before it changes anything: its first argument
  expression reads a property of \<^verbatim>\<open>undefined\<close>.
\<close>

lemma partial_update_throws: "partial_update e s = (Some TypeError, s)"
  by (simp add: partial_update_def this_largeImageKey_def)

text \<open>A full rebuild assigns \<^verbatim>\<open>lastKnownFile\<close> first, whatever happens after.\<close>

lemma full_rebuild_lastKnownFile:
  "lastKnownFile (snd (full_rebuild e w s)) = map_option fileName (activeTextEditor e)"
  by (simp add: full_rebuild_def emit_def Let_def split: sum.splits prod.splits)

text \<open>The full rebuild of the sample editor from the connected sample state.\<close>

lemma demo_full:
  "full_rebuild demo_env False ready_state =
     (None, ready_state\<lparr>activity := Some
        [(''details'', JStr ''Editing main.rs''),
         (''state'', JStr ''Workspace: proj''),
         (''startTimestamp'', JNum 5000),
         (''largeImageKey'', JStr ''rust''),
         (''largeImageText'', JStr ''Editing a RUST file''),
         (''smallImageKey'', JStr ''vscode-insiders''),
         (''smallImageText'', JStr ''Visual Studio Code - Insiders''),
         (''instance'', JBool False)]\<rparr>)"
  by (simp add: full_rebuild_def resolve_largeImageKey_def endsWith_def largeImageText_def
      startTimestamp_def get_prop_def ascii_upper_def upper_char_def
      generateDetails_def render_def getFileDetails_def
      js_replace_def startsWith_def Let_def emit_def demo_env_def demo_editor_def
      ready_state_def demo_config_def demo_template_def lang_label_def lang_upper_def
      replace_if_def emptySpaces_def zwsp_def smallImageKey_def spread_def js_split_def)

section \<open>The login-failure handler\<close>

text \<open>A failure below the threshold: the counter goes up by one and a new login starts.\<close>

lemma retry_step:
  assumes "reconnecting s" "reconnectCounter s < reconnectThreshold (config s)"
  shows "\<exists>s' item. on_login_error e err s = (None, s') \<and> reconnecting s'
    \<and> reconnectCounter s' = reconnectCounter s + 1 \<and> config s' = config s
    \<and> logins (effects s') = logins (effects s) + 1 \<and> rpc s' \<noteq> None
    \<and> statusBarIcon s' = Some item
    \<and> sb_text item = attempts_text (reconnectThreshold (config s) - (reconnectCounter s + 1))
    \<and> sb_command item = []"
  using assms
  by (simp add: on_login_error_def Let_def emit_def initRPC_def createButton_def logins_simps
      split: option.splits)

text \<open>A failure at the threshold, or outside a reconnect: no login starts.\<close>

lemma stop_step:
  assumes "\<not> reconnecting s \<or> reconnectCounter s \<ge> reconnectThreshold (config s)"
  shows "logins (effects (snd (on_login_error e err s))) = logins (effects s)
    \<and> config (snd (on_login_error e err s)) = config s
    \<and> reconnectCounter (snd (on_login_error e err s)) = reconnectCounter s"
proof (cases "reconnecting s")
  case False
  then show ?thesis
    by (simp add: on_login_error_def Let_def emit_def announce_frame logins_simps)
next
  case True
  with assms have ge: "reconnectCounter s \<ge> reconnectThreshold (config s)" by simp
  define s1 where
    "s1 = createButton False (emit [ConsoleError (''[Discord Presence]: '' @ err_toString err)] s)"
  have f1: "config s1 = config s" "reconnectCounter s1 = reconnectCounter s"
    "logins (effects s1) = logins (effects s)"
    by (simp_all add: s1_def createButton_frame emit_def logins_simps)
  obtain x s2 where d: "destroyRPC e s1 = (x, s2)" by (cases "destroyRPC e s1") auto
  have f2: "config s2 = config s" "reconnectCounter s2 = reconnectCounter s"
    "logins (effects s2) = logins (effects s)"
    using destroyRPC_frame[of e s1] d f1 by simp_all
  have "on_login_error e err s
      = (case x of Some ex \<Rightarrow> (Some ex, s2) | None \<Rightarrow> (None, announce err s2))"
    using True ge d by (simp add: on_login_error_def Let_def emit_def s1_def)
  then show ?thesis using f2 by (simp add: announce_frame split: option.splits)
qed

lemma stop_icon:
  assumes "reconnecting s" "reconnectCounter s \<ge> reconnectThreshold (config s)"
  shows "\<exists>item. statusBarIcon (snd (on_login_error e err s)) = Some item
     \<and> sb_text item = ''$(plug) Reconnect to Discord'' \<and> sb_command item = ''discord.reconnect''"
proof -
  define s1 where
    "s1 = createButton False (emit [ConsoleError (''[Discord Presence]: '' @ err_toString err)] s)"
  obtain x s2 where d: "destroyRPC e s1 = (x, s2)" by (cases "destroyRPC e s1") auto
  obtain item where i1: "statusBarIcon s1 = Some item"
    "sb_text item = ''$(plug) Reconnect to Discord''" "sb_command item = ''discord.reconnect''"
    using createButton_icon[of False
        "emit [ConsoleError (''[Discord Presence]: '' @ err_toString err)] s"]
    unfolding s1_def by auto
  have i2: "statusBarIcon s2 = Some item" using destroyRPC_frame[of e s1] d i1 by simp
  have eq: "on_login_error e err s
      = (case x of Some ex \<Rightarrow> (Some ex, s2) | None \<Rightarrow> (None, announce err s2))"
    using assms d by (simp add: on_login_error_def Let_def emit_def s1_def)
  show ?thesis
  proof (cases x)
    case (Some ex)
    then show ?thesis using eq i1 i2 by simp
  next
    case None
    show ?thesis
    proof (cases "silent (config s2)")
      case True
      then show ?thesis using eq None i1 i2 by (simp add: announce_def)
    next
      case False
      then show ?thesis using eq None createButton_icon[of False]
        by (simp add: announce_def)
    qed
  qed
qed

lemma stopped_stays:
  assumes "\<not> reconnecting s \<or> reconnectCounter s \<ge> reconnectThreshold (config s)"
  shows "logins (effects (login_failures evs s)) = logins (effects s)"
  using assms
proof (induction evs arbitrary: s)
  case Nil
  then show ?case by simp
next
  case (Cons ev evs)
  obtain e err where ev: "ev = (e, err)" by (cases ev)
  let ?s' = "snd (on_login_error e err s)"
  have st: "logins (effects ?s') = logins (effects s)" "config ?s' = config s"
    "reconnectCounter ?s' = reconnectCounter s"
    using stop_step[OF Cons.prems] by simp_all
  have "\<not> reconnecting ?s' \<or> reconnectCounter ?s' \<ge> reconnectThreshold (config ?s')"
  proof (cases "reconnecting s")
    case True
    with Cons.prems show ?thesis using st by simp
  next
    case False
    then have "\<not> reconnecting ?s'"
      by (simp add: on_login_error_def Let_def emit_def announce_frame)
    then show ?thesis by simp
  qed
  from Cons.IH[OF this] show ?case using st ev by simp
qed

lemma retry_run:
  assumes "reconnecting s"
    "reconnectCounter s + int (length evs) \<le> reconnectThreshold (config s)"
  shows "reconnecting (login_failures evs s)
    \<and> reconnectCounter (login_failures evs s) = reconnectCounter s + int (length evs)
    \<and> config (login_failures evs s) = config s
    \<and> logins (effects (login_failures evs s)) = logins (effects s) + length evs"
  using assms
proof (induction evs arbitrary: s)
  case Nil
  then show ?case by simp
next
  case (Cons ev evs)
  obtain e err where ev: "ev = (e, err)" by (cases ev)
  from Cons.prems have lt: "reconnectCounter s < reconnectThreshold (config s)" by simp
  from retry_step[OF Cons.prems(1) lt, of e err] obtain s' where
    s': "on_login_error e err s = (None, s')" "reconnecting s'"
       "reconnectCounter s' = reconnectCounter s + 1" "config s' = config s"
       "logins (effects s') = logins (effects s) + 1"
    by blast
  have "reconnectCounter s' + int (length evs) \<le> reconnectThreshold (config s')"
    using Cons.prems(2) s' by simp
  from Cons.IH[OF s'(2) this] show ?case using s' ev by simp
qed

text \<open>
  C1, as amended. With a threshold of 3, in a reconnect whose counter is 0, each of the
  first three consecutive login failures starts a new login, and after the third the
  status item still shows the attempts that remain (none); the fourth failure, and every
  failure after it, starts no login, and the fourth switches the status item to
  \<^verbatim>\<open>Reconnect to Discord\<close> with the reconnect command.
\<close>

theorem retries_then_manual_reconnect:
  assumes "reconnecting s" and "reconnectCounter s = 0"
    and "reconnectThreshold (config s) = 3" and "length evs = 3"
  shows "logins (effects (login_failures (take 1 evs) s)) = logins (effects s) + 1
    \<and> logins (effects (login_failures (take 2 evs) s)) = logins (effects s) + 2
    \<and> logins (effects (login_failures evs s)) = logins (effects s) + 3
    \<and> (\<exists>item. statusBarIcon (login_failures evs s) = Some item
          \<and> sb_text item = ''$(issue-reopened) Reconnecting: 0 attempts left''
          \<and> sb_command item = [])
    \<and> logins (effects (login_failures (evs @ ev # later) s)) = logins (effects s) + 3
    \<and> (\<exists>item. statusBarIcon (login_failures (evs @ [ev]) s) = Some item
          \<and> sb_text item = ''$(plug) Reconnect to Discord''
          \<and> sb_command item = ''discord.reconnect'')"
proof -
  have run: "\<And>xs. length xs \<le> 3 \<Longrightarrow>
      reconnecting (login_failures xs s)
      \<and> reconnectCounter (login_failures xs s) = int (length xs)
      \<and> config (login_failures xs s) = config s
      \<and> logins (effects (login_failures xs s)) = logins (effects s) + length xs"
    using retry_run[OF assms(1), of _] assms(2,3) by simp
  have a: "logins (effects (login_failures (take 1 evs) s)) = logins (effects s) + 1"
    "logins (effects (login_failures (take 2 evs) s)) = logins (effects s) + 2"
    "logins (effects (login_failures evs s)) = logins (effects s) + 3"
    using run[of "take 1 evs"] run[of "take 2 evs"] run[of evs] assms(4) by simp_all
  obtain e3 err3 where last3: "evs = butlast evs @ [(e3, err3)]"
    using assms(4) by (metis append_butlast_last_id length_0_conv surj_pair zero_neq_numeral)
  let ?s2 = "login_failures (butlast evs) s"
  have s2: "reconnecting ?s2" "reconnectCounter ?s2 = 2" "config ?s2 = config s"
    using run[of "butlast evs"] assms(4) by simp_all
  have lf3: "login_failures evs s = snd (on_login_error e3 err3 ?s2)"
    by (subst last3) (simp add: login_failures_append)
  have lt: "reconnectCounter ?s2 < reconnectThreshold (config ?s2)"
    using s2 assms(3) by simp
  have b: "\<exists>item. statusBarIcon (login_failures evs s) = Some item
          \<and> sb_text item = ''$(issue-reopened) Reconnecting: 0 attempts left''
          \<and> sb_command item = []"
    using retry_step[OF s2(1) lt, of e3 err3] s2 assms(3) lf3
    by (auto simp: attempts_text_def show_int_def show_nat.simps digit_def)
  let ?s3 = "login_failures evs s"
  have s3: "reconnecting ?s3" "reconnectCounter ?s3 = 3" "config ?s3 = config s"
    "logins (effects ?s3) = logins (effects s) + 3"
    using run[of evs] assms(4) by simp_all
  have ge: "reconnectCounter ?s3 \<ge> reconnectThreshold (config ?s3)"
    using s3 assms(3) by simp
  have c: "logins (effects (login_failures (evs @ ev # later) s)) = logins (effects s) + 3"
    using stopped_stays[of ?s3 "ev # later"] ge s3(4) by (simp add: login_failures_append)
  obtain e4 err4 where ev: "ev = (e4, err4)" by (cases ev)
  have d: "\<exists>item. statusBarIcon (login_failures (evs @ [ev]) s) = Some item
          \<and> sb_text item = ''$(plug) Reconnect to Discord''
          \<and> sb_command item = ''discord.reconnect''"
    using stop_icon[OF s3(1) ge, of e4 err4] by (simp add: login_failures_append ev)
  from a b c d show ?thesis by blast
qed

theorem retries_then_manual_reconnect_witness:
  "reconnecting demo_state \<and> reconnectCounter demo_state = 0
   \<and> reconnectThreshold (config demo_state) = 3
   \<and> length [(demo_env, enoent), (demo_env, enoent), (demo_env, timeout_error)] = 3
   \<and> logins (effects (login_failures
         [(demo_env, enoent), (demo_env, enoent), (demo_env, timeout_error)] demo_state)) = 3
   \<and> logins (effects (login_failures
         ([(demo_env, enoent), (demo_env, enoent), (demo_env, timeout_error)]
           @ (demo_env, enoent) # [(demo_env, enoent)]) demo_state)) = 3
   \<and> map_option sb_text (statusBarIcon (login_failures
         ([(demo_env, enoent), (demo_env, enoent), (demo_env, timeout_error)]
           @ [(demo_env, enoent)]) demo_state)) = Some ''$(plug) Reconnect to Discord''"
  using retries_then_manual_reconnect [of demo_state
      "[(demo_env, enoent), (demo_env, enoent), (demo_env, timeout_error)]"
      "(demo_env, enoent)" "[(demo_env, enoent)]"]
  by (auto simp: demo_state_def demo_config_def logins_def)

text \<open>
  C1 as stated fails: with a threshold of 3, three consecutive failures leave the fourth
  client logging in (client 0 was the first of the reconnect) and the status item on
  the attempts-remaining display.
\<close>

theorem three_failures_make_fourth_login:
  "rpc (login_failures [(demo_env, enoent), (demo_env, enoent), (demo_env, enoent)] demo_state)
     = Some 3
   \<and> last (effects (login_failures [(demo_env, enoent), (demo_env, enoent), (demo_env, enoent)]
        demo_state)) = Login 3 ''383226320970055681''
   \<and> map_option sb_text (statusBarIcon
        (login_failures [(demo_env, enoent), (demo_env, enoent), (demo_env, enoent)] demo_state))
     = Some ''$(issue-reopened) Reconnecting: 0 attempts left''"
  by (simp add: demo_state_def demo_config_def on_login_error_def Let_def emit_def initRPC_def
      createButton_def attempts_text_def show_int_def show_nat.simps digit_def enoent_def)

text \<open>
  C2. In a reconnect whose counter is 0, after \<open>N\<close> consecutive login failures with
  \<open>N\<close> at most the threshold the counter is \<open>N\<close>, and the \<^verbatim>\<open>ready\<close> handler that
  follows leaves it at 0 (also when its \<^verbatim>\<open>setActivity\<close> throws).
\<close>

theorem reconnectCounter_counts_failures:
  assumes "reconnecting s" and "reconnectCounter s = 0"
    and "int (length evs) \<le> reconnectThreshold (config s)"
  shows "reconnectCounter (login_failures evs s) = int (length evs)
    \<and> reconnectCounter (snd (on_ready loud e (login_failures evs s))) = 0"
  using retry_run[OF assms(1), of evs] assms(2,3) on_ready_counter by simp

theorem reconnectCounter_counts_failures_witness:
  "reconnecting demo_state \<and> reconnectCounter demo_state = 0
   \<and> int (length [(demo_env, enoent), (demo_env, timeout_error)])
       \<le> reconnectThreshold (config demo_state)
   \<and> reconnectCounter (login_failures [(demo_env, enoent), (demo_env, timeout_error)] demo_state)
       = 2
   \<and> reconnectCounter (snd (on_ready True demo_env
         (login_failures [(demo_env, enoent), (demo_env, timeout_error)] demo_state))) = 0"
  using reconnectCounter_counts_failures [of demo_state
      "[(demo_env, enoent), (demo_env, timeout_error)]" True demo_env]
  by (simp add: demo_state_def demo_config_def)

section \<open>Teardown\<close>

text \<open>
  C9. \<^verbatim>\<open>destroyRPC\<close> without a client returns at once and changes nothing, effects
  included; two calls in succession leave what one call leaves; and after a call that
  returned, the client is gone and a further call changes nothing.
\<close>

theorem destroyRPC_idempotent:
  "(rpc s = None \<longrightarrow> destroyRPC e s = (None, s))
   \<and> destroyRPC_twice e1 e2 s = destroyRPC e1 s
   \<and> (fst (destroyRPC e1 s) = None \<longrightarrow>
        rpc (snd (destroyRPC e1 s)) = None
        \<and> destroyRPC e2 (snd (destroyRPC e1 s)) = (None, snd (destroyRPC e1 s)))"
  by (auto simp: destroyRPC_def destroyRPC_twice_def Let_def emit_def split: option.splits)

theorem destroyRPC_idempotent_witness:
  "rpc (ready_state\<lparr>rpc := None\<rparr>) = None
   \<and> destroyRPC demo_env (ready_state\<lparr>rpc := None\<rparr>) = (None, ready_state\<lparr>rpc := None\<rparr>)
   \<and> destroyRPC_twice demo_env demo_env ready_state = destroyRPC demo_env ready_state
   \<and> fst (destroyRPC demo_env ready_state) = None
   \<and> rpc (snd (destroyRPC demo_env ready_state)) = None
   \<and> destroyRPC demo_env (snd (destroyRPC demo_env ready_state))
       = (None, snd (destroyRPC demo_env ready_state))"
  using destroyRPC_idempotent [of "ready_state\<lparr>rpc := None\<rparr>" demo_env demo_env demo_env]
    destroyRPC_idempotent [of ready_state demo_env demo_env demo_env]
  by (simp add: destroyRPC_def ready_state_def demo_env_def emit_def)

section \<open>Building the activity\<close>

text \<open>
  C10. While no client exists, \<^verbatim>\<open>setActivity\<close> returns at once: the activity,
  \<^verbatim>\<open>lastKnownFile\<close> and every other part of the state, effects included, are as before.
\<close>

theorem setActivity_without_client:
  "rpc s = None \<Longrightarrow> setActivity e workspaceElapsedTime' s = (None, s)"
  by (simp add: setActivity_def)

theorem setActivity_without_client_witness:
  "rpc (ready_state\<lparr>rpc := None\<rparr>) = None
   \<and> setActivity demo_env True (ready_state\<lparr>rpc := None\<rparr>) = (None, ready_state\<lparr>rpc := None\<rparr>)"
  using setActivity_without_client [of "ready_state\<lparr>rpc := None\<rparr>" demo_env True]
  by simp

text \<open>
  C3, as amended. With a client, \<^verbatim>\<open>setActivity\<close> enters the partial-update branch exactly
  when an editor is focused and its file is \<^verbatim>\<open>lastKnownFile\<close>, whatever its argument.
  Such a call, and the timer callback on an unchanged file, is no full rebuild: it leaves
  \<^verbatim>\<open>lastKnownFile\<close> and every property of the activity other than \<^verbatim>\<open>details\<close>,
  \<^verbatim>\<open>state\<close> and \<^verbatim>\<open>smallImageKey\<close> as they were. Any other call with a client is a
  full rebuild, which sets \<^verbatim>\<open>lastKnownFile\<close> to the focused file.
\<close>

theorem partial_update_on_same_file:
  assumes "rpc s = Some client"
  shows "(activeTextEditor e \<noteq> None
            \<and> map_option fileName (activeTextEditor e) = lastKnownFile s
          \<longrightarrow> setActivity e workspaceElapsedTime' s = partial_update e s
              \<and> setActivity e workspaceElapsedTime' s = setActivity e (\<not> workspaceElapsedTime') s
              \<and> lastKnownFile (snd (setActivity e workspaceElapsedTime' s)) = lastKnownFile s
              \<and> (\<forall>key. key \<noteq> ''details'' \<and> key \<noteq> ''state'' \<and> key \<noteq> ''smallImageKey''
                    \<longrightarrow> map_of (spread (activity (snd (setActivity e workspaceElapsedTime' s)))) key
                        = map_of (spread (activity s)) key)
              \<and> lastKnownFile (snd (on_timer e s)) = lastKnownFile s
              \<and> (\<forall>key. key \<noteq> ''details'' \<and> key \<noteq> ''state'' \<and> key \<noteq> ''smallImageKey''
                    \<longrightarrow> map_of (spread (activity (snd (on_timer e s)))) key
                        = map_of (spread (activity s)) key))
    \<and> (\<not> (activeTextEditor e \<noteq> None
            \<and> map_option fileName (activeTextEditor e) = lastKnownFile s)
          \<longrightarrow> setActivity e workspaceElapsedTime' s = full_rebuild e workspaceElapsedTime' s
              \<and> lastKnownFile (snd (setActivity e workspaceElapsedTime' s))
                  = map_option fileName (activeTextEditor e))"
proof -
  have a: "setActivity e w s = partial_update e s
      \<and> lastKnownFile (snd (setActivity e w s)) = lastKnownFile s
      \<and> (\<forall>key. key \<noteq> ''details'' \<and> key \<noteq> ''state'' \<and> key \<noteq> ''smallImageKey''
            \<longrightarrow> map_of (spread (activity (snd (setActivity e w s)))) key
                = map_of (spread (activity s)) key)"
    if same: "activeTextEditor e \<noteq> None
            \<and> map_option fileName (activeTextEditor e) = lastKnownFile s" for w
  proof -
    have 1: "setActivity e w s = partial_update e s"
      using same assms by (simp add: setActivity_def)
    show ?thesis
      by (simp add: 1 partial_update_throws)
  qed
  have t: "lastKnownFile (snd (on_timer e s)) = lastKnownFile s
      \<and> (\<forall>key. key \<noteq> ''details'' \<and> key \<noteq> ''state'' \<and> key \<noteq> ''smallImageKey''
            \<longrightarrow> map_of (spread (activity (snd (on_timer e s)))) key
                = map_of (spread (activity s)) key)"
    if same: "activeTextEditor e \<noteq> None
            \<and> map_option fileName (activeTextEditor e) = lastKnownFile s"
  proof -
    have "setActivity e (cfg_workspaceElapsedTime (getConfiguration e))
            (s\<lparr>config := getConfiguration e\<rparr>)
          = partial_update e (s\<lparr>config := getConfiguration e\<rparr>)"
      using same assms by (simp add: setActivity_def)
    then have "on_timer e s = (Some TypeError, s\<lparr>config := getConfiguration e\<rparr>)"
      by (simp add: on_timer_def Let_def partial_update_throws)
    then show ?thesis by simp
  qed
  have b: "setActivity e workspaceElapsedTime' s = full_rebuild e workspaceElapsedTime' s
      \<and> lastKnownFile (snd (setActivity e workspaceElapsedTime' s))
          = map_option fileName (activeTextEditor e)"
    if "\<not> (activeTextEditor e \<noteq> None
            \<and> map_option fileName (activeTextEditor e) = lastKnownFile s)"
  proof -
    have 1: "setActivity e workspaceElapsedTime' s = full_rebuild e workspaceElapsedTime' s"
      using that assms by (auto simp: setActivity_def)
    show ?thesis
      by (simp add: 1 full_rebuild_lastKnownFile)
  qed
  show ?thesis
  proof (cases "activeTextEditor e \<noteq> None
            \<and> map_option fileName (activeTextEditor e) = lastKnownFile s")
    case True
    have "setActivity e workspaceElapsedTime' s = setActivity e (\<not> workspaceElapsedTime') s"
      using a [where w = "workspaceElapsedTime'", OF True]
        a [where w = "\<not> workspaceElapsedTime'", OF True]
      by simp
    with a [where w = "workspaceElapsedTime'", OF True] t [OF True] True show ?thesis
      by blast
  next
    case False
    with b [OF False] show ?thesis by blast
  qed
qed

theorem partial_update_on_same_file_witness:
  "rpc ready_state = Some 0
   \<and> activeTextEditor demo_env \<noteq> None
   \<and> map_option fileName (activeTextEditor demo_env) = lastKnownFile ready_state
   \<and> setActivity demo_env True ready_state = partial_update demo_env ready_state
   \<and> setActivity demo_env True ready_state = setActivity demo_env False ready_state
   \<and> lastKnownFile (snd (setActivity demo_env True ready_state)) = lastKnownFile ready_state
   \<and> lastKnownFile (snd (on_timer demo_env ready_state)) = lastKnownFile ready_state
   \<and> setActivity idle_env True ready_state = full_rebuild idle_env True ready_state
   \<and> lastKnownFile (snd (setActivity idle_env True ready_state)) = None"
proof -
  have h1: "rpc ready_state = Some 0"
    by (simp add: ready_state_def)
  have h2: "activeTextEditor demo_env \<noteq> None
      \<and> map_option fileName (activeTextEditor demo_env) = lastKnownFile ready_state"
    by (simp add: demo_env_def demo_editor_def ready_state_def)
  have h3: "\<not> (activeTextEditor idle_env \<noteq> None
      \<and> map_option fileName (activeTextEditor idle_env) = lastKnownFile ready_state)"
    by (simp add: idle_env_def)
  have h4: "map_option fileName (activeTextEditor idle_env) = None"
    by (simp add: idle_env_def)
  have t1: "setActivity demo_env True ready_state = partial_update demo_env ready_state"
    "setActivity demo_env True ready_state = setActivity demo_env (\<not> True) ready_state"
    "lastKnownFile (snd (setActivity demo_env True ready_state)) = lastKnownFile ready_state"
    "lastKnownFile (snd (on_timer demo_env ready_state)) = lastKnownFile ready_state"
    using partial_update_on_same_file [OF h1, of demo_env True] h2 by blast+
  have t2: "setActivity idle_env True ready_state = full_rebuild idle_env True ready_state"
    "lastKnownFile (snd (setActivity idle_env True ready_state))
       = map_option fileName (activeTextEditor idle_env)"
    using partial_update_on_same_file [OF h1, of idle_env True] h3 by blast+
  from h1 h2 h4 t1 t2 show ?thesis by simp
qed

text \<open>
  C3 as stated fails: the timer callback on an unchanged file does not rebuild. The
  activity stays as it was, with the start timestamp 1000 and the old small-image text,
  where a full rebuild at time 5000 sets both anew.
\<close>

theorem timer_tick_on_same_file:
  "map_option fileName (activeTextEditor demo_env) = lastKnownFile ready_state
   \<and> on_timer demo_env ready_state = (Some TypeError, ready_state)
   \<and> map_option (\<lambda>props. (get_prop props ''startTimestamp'', get_prop props ''smallImageText''))
        (activity (snd (on_timer demo_env ready_state)))
       = Some (JNum 1000, JStr ''Visual Studio Code'')
   \<and> map_option (\<lambda>props. (get_prop props ''startTimestamp'', get_prop props ''smallImageText''))
        (activity (snd (full_rebuild demo_env False ready_state)))
       = Some (JNum 5000, JStr ''Visual Studio Code - Insiders'')"
proof -
  have cfg: "ready_state\<lparr>config := getConfiguration demo_env\<rparr> = ready_state"
    by (simp add: ready_state_def demo_env_def)
  have same: "map_option fileName (activeTextEditor demo_env) = lastKnownFile ready_state"
    by (simp add: demo_env_def demo_editor_def ready_state_def)
  have sa: "setActivity demo_env w ready_state = partial_update demo_env ready_state" for w
    using same by (simp add: setActivity_def ready_state_def demo_env_def)
  have ot: "on_timer demo_env ready_state = (Some TypeError, ready_state)"
    by (simp add: on_timer_def cfg sa partial_update_throws Let_def)
  have old: "map_option
        (\<lambda>props. (get_prop props ''startTimestamp'', get_prop props ''smallImageText''))
        (activity ready_state) = Some (JNum 1000, JStr ''Visual Studio Code'')"
    by (simp add: ready_state_def get_prop_def)
  have new: "map_option
        (\<lambda>props. (get_prop props ''startTimestamp'', get_prop props ''smallImageText''))
        (activity (snd (full_rebuild demo_env False ready_state)))
       = Some (JNum 5000, JStr ''Visual Studio Code - Insiders'')"
    by (simp add: demo_full get_prop_def)
  show ?thesis
    by (simp add: same ot old new)
qed

text \<open>
  C5, as amended. With a client and no focused editor, \<^verbatim>\<open>setActivity\<close> returns without
  an exception and leaves the idle activity: the start timestamp is \<^verbatim>\<open>null\<close> and the
  large image key is \<^verbatim>\<open>vscode-big\<close> under every application name; the application name
  only reaches the small image key and the small image text.
\<close>

theorem idle_snapshot:
  assumes "rpc s \<noteq> None" and "activeTextEditor e = None"
  shows "setActivity e workspaceElapsedTime' s =
    (None,
     s\<lparr>lastKnownFile := None,
       activity := Some
         [(''details'', JStr (js_replace (template (config s) ''detailsIdle'') ''{null}'' emptySpaces)),
          (''state'',
             JStr (js_replace (template (config s) ''lowerDetailsIdle'') ''{null}'' emptySpaces)),
          (''startTimestamp'', JNull),
          (''largeImageKey'', JStr ''vscode-big''),
          (''largeImageText'', JStr (template (config s) ''largeImageIdle'')),
          (''smallImageKey'', JStr (smallImageKey e)),
          (''smallImageText'',
             JStr (js_replace (template (config s) ''smallImage'') ''{appname}'' (appName e))),
          (''instance'', JBool False)]\<rparr>)"
proof -
  from assms(1) obtain client where "rpc s = Some client" by auto
  then show ?thesis
    using assms(2)
    by (simp add: setActivity_def full_rebuild_def resolve_largeImageKey_def generateDetails_idle
        largeImageText_def startTimestamp_def lang_label_def emit_Nil Let_def)
qed

theorem idle_snapshot_witness:
  "rpc demo_state \<noteq> None \<and> activeTextEditor idle_env = None
   \<and> fst (setActivity idle_env True demo_state) = None
   \<and> map_option (\<lambda>props. (get_prop props ''startTimestamp'', get_prop props ''largeImageKey''))
        (activity (snd (setActivity idle_env True demo_state)))
       = Some (JNull, JStr ''vscode-big'')"
  using idle_snapshot [of demo_state idle_env True]
  by (simp add: demo_state_def idle_env_def demo_env_def get_prop_def)

text \<open>
  C5 as stated fails: on an Insiders build the idle large image key is the plain
  \<^verbatim>\<open>vscode-big\<close>; only the small image key is the Insiders one.
\<close>

theorem idle_insiders_keeps_plain_key:
  "includes_str (appName idle_env) ''Insiders''
   \<and> map_option (\<lambda>props. (get_prop props ''largeImageKey'', get_prop props ''smallImageKey''))
        (activity (snd (setActivity idle_env False demo_state)))
       = Some (JStr ''vscode-big'', JStr ''vscode-insiders'')"
  by (simp add: setActivity_def full_rebuild_def resolve_largeImageKey_def generateDetails_idle
      largeImageText_def startTimestamp_def lang_label_def emit_Nil Let_def
      demo_state_def idle_env_def demo_env_def get_prop_def smallImageKey_def startsWith_def)

section \<open>File details\<close>

text \<open>
  C7. A template without \<^verbatim>\<open>{filesize}\<close> makes \<^verbatim>\<open>getFileDetails\<close> call
  \<^verbatim>\<open>statSync\<close> not once, and each of the four facts of the object it returns is
  \<^verbatim>\<open>null\<close> when its placeholder is absent from the template.
\<close>

theorem getFileDetails_on_demand:
  "(\<not> includes_str rawString ''{filesize}'' \<longrightarrow> fst (getFileDetails e rawString) = [])
   \<and> (\<forall>d. snd (getFileDetails e rawString) = Inr d \<longrightarrow>
          (\<not> includes_str rawString ''{filesize}'' \<longrightarrow> size_fd d = None)
        \<and> (\<not> includes_str rawString ''{totallines}'' \<longrightarrow> totalLines d = None)
        \<and> (\<not> includes_str rawString ''{currentline}'' \<longrightarrow> currentLine d = None)
        \<and> (\<not> includes_str rawString ''{currentcolumn}'' \<longrightarrow> currentColumn d = None))"
  by (auto simp: getFileDetails_def Let_def split: option.splits if_splits)

theorem getFileDetails_on_demand_witness:
  "\<not> includes_str ''Line {currentline} of {totallines}'' ''{filesize}''
   \<and> \<not> includes_str ''Line {currentline} of {totallines}'' ''{currentcolumn}''
   \<and> getFileDetails demo_env ''Line {currentline} of {totallines}''
       = ([], Inr \<lparr>size_fd = None, totalLines = Some ''120'', currentLine = Some ''5'',
                  currentColumn = None\<rparr>)"
  using getFileDetails_on_demand [of "''Line {currentline} of {totallines}''" demo_env]
  by (simp add: getFileDetails_def startsWith_def demo_env_def demo_editor_def Let_def
      show_nat.simps digit_def)

text \<open>
  The unit by range of the byte count: the five suffixes cover the sizes up to
  \<open>10^15\<close> bytes, and the next range has none.
\<close>

lemma scale_small: "sz \<le> 1000 \<Longrightarrow> scale sz d = (sz, d)"
  by (simp add: scale.simps)

lemma scale_big: "1000 < sz \<Longrightarrow> scale sz d = scale (sz / 1000) (Suc d)"
  by (subst scale.simps) simp

lemma format_size_bytes: "n \<le> 1000 \<Longrightarrow> format_size n = show_nat n @ '' bytes''"
  by (simp add: format_size_def scale_small sizes_at_def sizes_def)

lemma format_size_kb:
  assumes "1000 < n" "n \<le> 1000000"
  shows "format_size n = toFixed2 (real n / 1000) @ ''kb''"
proof -
  have "scale (real n) 0 = (real n / 1000, 1)"
    using assms by (simp add: scale_big scale_small)
  then show ?thesis using assms by (simp add: format_size_def sizes_at_def sizes_def)
qed

lemma format_size_mb:
  assumes "1000000 < n" "n \<le> 1000000000"
  shows "format_size n = toFixed2 (real n / 1000000) @ ''mb''"
proof -
  have "scale (real n) 0 = (real n / 1000000, 2)"
    using assms by (simp add: scale_big scale_small)
  then show ?thesis using assms by (simp add: format_size_def sizes_at_def sizes_def)
qed

lemma format_size_gb:
  assumes "1000000000 < n" "n \<le> 1000000000000"
  shows "format_size n = toFixed2 (real n / 1000000000) @ ''gb''"
proof -
  have "scale (real n) 0 = (real n / 1000000000, 3)"
    using assms by (simp add: scale_big scale_small)
  then show ?thesis using assms by (simp add: format_size_def sizes_at_def sizes_def)
qed

lemma format_size_tb:
  assumes "1000000000000 < n" "n \<le> 1000000000000000"
  shows "format_size n = toFixed2 (real n / 1000000000000) @ ''tb''"
proof -
  have "scale (real n) 0 = (real n / 1000000000000, 4)"
    using assms by (simp add: scale_big scale_small)
  then show ?thesis using assms by (simp add: format_size_def sizes_at_def sizes_def)
qed

lemma format_size_beyond:
  assumes "1000000000000000 < n" "n \<le> 1000000000000000000"
  shows "format_size n = toFixed2 (real n / 1000000000000000) @ ''undefined''"
proof -
  have "scale (real n) 0 = (real n / 1000000000000000, 5)"
    using assms by (simp add: scale_big scale_small)
  then show ?thesis using assms by (simp add: format_size_def sizes_at_def sizes_def)
qed

text \<open>Two sizes as examples: one scaled twice, one not scaled.\<close>

lemma format_size_1500000: "format_size 1500000 = ''1.50mb''"
  by (simp add: format_size_def scale.simps toFixed2_def show_nat.simps digit_def sizes_at_def
      sizes_def Let_def)

lemma format_size_800: "format_size 800 = ''800 bytes''"
  by (simp add: format_size_def scale.simps show_nat.simps digit_def sizes_at_def sizes_def)

text \<open>
  C8 at a size beyond the last unit: a file of 2,000,000,000,000,000 bytes is divided five
  times, the index 5 is past the end of the five suffixes, and the size is rendered with
  the word \<^verbatim>\<open>undefined\<close> for a unit.
\<close>

theorem filesize_beyond_tb:
  "getFileDetails demo_env ''{filesize}''
     = ([''/home/u/proj/main.rs''],
        Inr \<lparr>size_fd = Some ''2.00undefined'', totalLines = None, currentLine = None,
             currentColumn = None\<rparr>)"
  by (simp add: getFileDetails_def startsWith_def demo_env_def demo_editor_def Let_def
      format_size_def scale.simps toFixed2_def show_nat.simps digit_def sizes_at_def sizes_def)

section \<open>Notices\<close>

text \<open>
  C4, as amended. The reconnect command shows the message \<^verbatim>\<open>Reconnecting to Discord RPC\<close>
  exactly when the configuration is not silent, and writes \<^verbatim>\<open>$(pulse) Reconnecting\<close>
  into the status item exactly when there is one; it creates none.
\<close>

theorem reconnect_indication:
  "info_notices (new_effects s (reconnect e s))
     = (if silent (config s) then [] else [''Reconnecting to Discord RPC''])
   \<and> statusBarIcon (reconnect e s)
     = map_option (\<lambda>item. item\<lparr>sb_text := ''$(pulse) Reconnecting''\<rparr>) (statusBarIcon s)"
proof -
  define s1 where "s1 = (if rpc s \<noteq> None then snd (destroyRPC e s) else s)"
  have "\<exists>fx. effects s1 = effects s @ fx \<and> info_notices fx = []"
  proof (cases "rpc s")
    case None
    then show ?thesis by (simp add: s1_def)
  next
    case (Some client)
    then show ?thesis using destroyRPC_effects[of e s] by (auto simp: s1_def)
  qed
  then obtain fx where fx: "effects s1 = effects s @ fx" "info_notices fx = []"
    by blast
  have fr: "config s1 = config s" "statusBarIcon s1 = statusBarIcon s"
    using destroyRPC_frame[of e s] by (auto simp: s1_def)
  have r: "reconnect e s =
     (let s2 = initRPC (clientID (config s1)) True s1;
          s3 = (if \<not> silent (config s2)
                then emit [ShowInformationMessage ''Reconnecting to Discord RPC''] s2
                else s2)
      in case statusBarIcon s3 of
           None \<Rightarrow> s3
         | Some item \<Rightarrow> s3\<lparr>statusBarIcon := Some (item\<lparr>sb_text := ''$(pulse) Reconnecting''\<rparr>)\<rparr>)"
    by (simp add: reconnect_def s1_def Let_def)
  show ?thesis
    using fx fr
    by (simp add: r Let_def initRPC_def emit_def new_effects_def info_notices_append
        split: option.splits)
qed

theorem reconnect_indication_witness:
  "info_notices (new_effects demo_state (reconnect demo_env demo_state))
     = [''Reconnecting to Discord RPC'']
   \<and> statusBarIcon (reconnect demo_env demo_state) = None
   \<and> map_option sb_text
        (statusBarIcon (reconnect demo_env (createButton True demo_state)))
       = Some ''$(pulse) Reconnecting''"
  using reconnect_indication [of demo_state demo_env]
    reconnect_indication [of "createButton True demo_state" demo_env]
    createButton_icon [of True demo_state]
  by (auto simp: demo_state_def demo_config_def)

text \<open>
  C4 as stated fails: in silent mode, with no status item (as after a successful
  connection), the reconnect command shows nothing.
\<close>

theorem reconnect_silent_without_item:
  "silent (config (ready_state\<lparr>config := demo_config\<lparr>silent := True\<rparr>\<rparr>))
   \<and> info_notices
       (effects (reconnect demo_env (ready_state\<lparr>config := demo_config\<lparr>silent := True\<rparr>\<rparr>))) = []
   \<and> statusBarIcon (reconnect demo_env (ready_state\<lparr>config := demo_config\<lparr>silent := True\<rparr>\<rparr>))
       = None"
  by (simp add: reconnect_def ready_state_def demo_config_def demo_env_def destroyRPC_def
      initRPC_def emit_def Let_def)

text \<open>
  C6, as amended. Where the teardown does not throw (the promise of \<^verbatim>\<open>rpc.destroy()\<close>
  resolves, or no teardown runs, as on every retry), a login failure that is answered by a retry
  (reconnecting, counter below the threshold) shows no notice; any other login failure
  shows nothing in silent mode and otherwise exactly one notice:
  \<^verbatim>\<open>No Discord Client detected!\<close> when the message contains \<^verbatim>\<open>ENOENT\<close>, else
  \<^verbatim>\<open>Couldn't connect to Discord via RPC: \<close> followed by the text of the error.
\<close>

theorem login_error_notice:
  assumes "destroy_resolves e \<or> \<not> reconnecting s \<or> rpc s = None
    \<or> reconnectCounter s < reconnectThreshold (config s)"
  shows "error_notices (new_effects s (snd (on_login_error e err s)))
     = (if reconnecting s \<and> reconnectCounter s < reconnectThreshold (config s) then []
        else if silent (config s) then []
        else if includes_str (err_message err) ''ENOENT'' then [''No Discord Client detected!'']
        else [''Couldn't connect to Discord via RPC: '' @ err_toString err])"
proof -
  define s0 where "s0 = emit [ConsoleError (''[Discord Presence]: '' @ err_toString err)] s"
  have ann: "\<And>(t :: state) fx. effects t = effects s @ fx \<Longrightarrow> error_notices fx = []
     \<Longrightarrow> config t = config s \<Longrightarrow>
     error_notices (new_effects s (announce err t))
     = (if silent (config s) then []
        else if includes_str (err_message err) ''ENOENT'' then [''No Discord Client detected!'']
        else [''Couldn't connect to Discord via RPC: '' @ err_toString err])"
  proof -
    fix t :: state and fx
    assume t: "effects t = effects s @ fx" "error_notices fx = []" "config t = config s"
    show "error_notices (new_effects s (announce err t))
     = (if silent (config s) then []
        else if includes_str (err_message err) ''ENOENT'' then [''No Discord Client detected!'']
        else [''Couldn't connect to Discord via RPC: '' @ err_toString err])"
    proof (cases "silent (config s)")
      case True
      then show ?thesis using t by (simp add: announce_def new_effects_def)
    next
      case False
      let ?m = "if includes_str (err_message err) ''ENOENT''
                 then ShowErrorMessage ''No Discord Client detected!''
                 else ShowErrorMessage
                        (''Couldn't connect to Discord via RPC: '' @ err_toString err)"
      obtain fx2 where
        "effects (createButton False (emit [?m] t)) = effects (emit [?m] t) @ fx2"
        "error_notices fx2 = []"
        using createButton_effects[of False "emit [?m] t"] by auto
      then show ?thesis using False t
        by (simp add: announce_def new_effects_def emit_def error_notices_append)
    qed
  qed
  show ?thesis
  proof (cases "reconnecting s")
    case False
    have "on_login_error e err s = (None, announce err s0)"
      using False by (simp add: on_login_error_def s0_def Let_def emit_def)
    moreover have
      "effects s0 = effects s @ [ConsoleError (''[Discord Presence]: '' @ err_toString err)]"
      "config s0 = config s" by (simp_all add: s0_def emit_def)
    ultimately show ?thesis using False ann[of s0] by simp
  next
    case True
    show ?thesis
    proof (cases "reconnectCounter s < reconnectThreshold (config s)")
      case lt: True
      then show ?thesis using True
        by (simp add: on_login_error_def Let_def emit_def initRPC_def createButton_def
            new_effects_def split: option.splits)
    next
      case ge: False
      define s1 where "s1 = createButton False s0"
      obtain fx1 where fx1: "effects s1 = effects s0 @ fx1" "error_notices fx1 = []"
        using createButton_effects[of False s0] by (auto simp: s1_def)
      obtain fx2 where fx2: "effects (snd (destroyRPC e s1)) = effects s1 @ fx2"
        "error_notices fx2 = []"
        using destroyRPC_effects[of e s1] by auto
      have "rpc s1 = rpc s"
        by (simp add: s1_def createButton_frame s0_def emit_def)
      then have ok: "fst (destroyRPC e s1) = None"
        using assms True ge by (auto simp: destroyRPC_def Let_def split: option.splits)
      have cfg: "config (snd (destroyRPC e s1)) = config s"
        using destroyRPC_frame[of e s1] by (simp add: s1_def createButton_frame s0_def emit_def)
      have "on_login_error e err s = (None, announce err (snd (destroyRPC e s1)))"
        using True ge ok
        by (cases "destroyRPC e s1") (simp add: on_login_error_def s0_def s1_def Let_def emit_def)
      moreover have "effects (snd (destroyRPC e s1))
          = effects s @ ([ConsoleError (''[Discord Presence]: '' @ err_toString err)] @ fx1 @ fx2)"
        using fx1 fx2 by (simp add: s0_def emit_def)
      moreover have
        "error_notices ([ConsoleError (''[Discord Presence]: '' @ err_toString err)] @ fx1 @ fx2)
           = []"
        using fx1 fx2 by (simp add: error_notices_append)
      ultimately show ?thesis using ge ann[of "snd (destroyRPC e s1)"] cfg by simp
    qed
  qed
qed

theorem login_error_notice_witness:
  "(destroy_resolves demo_env \<or> \<not> reconnecting ready_state \<or> rpc ready_state = None
      \<or> reconnectCounter ready_state < reconnectThreshold (config ready_state))
   \<and> error_notices (new_effects ready_state (snd (on_login_error demo_env enoent ready_state)))
       = [''No Discord Client detected!'']
   \<and> \<not> destroy_resolves (demo_env\<lparr>destroy_resolves := False\<rparr>)
   \<and> reconnecting demo_state \<and> rpc demo_state \<noteq> None
   \<and> reconnectCounter demo_state < reconnectThreshold (config demo_state)
   \<and> error_notices
        (new_effects demo_state
          (snd (on_login_error (demo_env\<lparr>destroy_resolves := False\<rparr>) enoent demo_state)))
       = []"
proof -
  have a: "destroy_resolves demo_env"
    by (simp add: demo_env_def)
  have n1: "error_notices
      (new_effects ready_state (snd (on_login_error demo_env enoent ready_state)))
       = [''No Discord Client detected!'']"
    using login_error_notice [of demo_env ready_state enoent] a
    by (simp add: ready_state_def demo_config_def enoent_def startsWith_def)
  have b: "reconnecting demo_state" "rpc demo_state \<noteq> None"
    "reconnectCounter demo_state < reconnectThreshold (config demo_state)"
    by (simp_all add: demo_state_def demo_config_def)
  have n2: "error_notices
        (new_effects demo_state
          (snd (on_login_error (demo_env\<lparr>destroy_resolves := False\<rparr>) enoent demo_state)))
       = []"
    using login_error_notice [of "demo_env\<lparr>destroy_resolves := False\<rparr>" demo_state enoent] b
    by simp
  from a n1 b n2 show ?thesis by simp
qed

text \<open>
  C6 as stated fails: a failure that is retried shows no notice, though the
  configuration is not silent and the message contains \<^verbatim>\<open>ENOENT\<close>.
\<close>

theorem retried_failure_shows_no_notice:
  "\<not> silent (config demo_state)
   \<and> includes_str (err_message enoent) ''ENOENT''
   \<and> error_notices (effects (snd (on_login_error demo_env enoent demo_state))) = []"
  by (simp add: demo_state_def demo_config_def enoent_def startsWith_def on_login_error_def
      Let_def emit_def initRPC_def createButton_def)

end
